theory Spec2Isabelle
  imports Main "HOL-Library.Word"
begin

section \<open>ABI.h: return adjustments, this adjustments and thunks\<close>

subsection \<open>Bytes, raw storage and pointers\<close>

text \<open>
  The virtual adjustment of \<^verbatim>\<open>ABI.h\<close> is a C++ union that is written with
  \<^verbatim>\<open>memset\<close> and compared with \<^verbatim>\<open>memcmp\<close>, so it is modelled as its object
  representation: the list of its bytes, in address order. A pointer is an address,
  \<^verbatim>\<open>NULL\<close> and \<^verbatim>\<open>nullptr\<close> being address 0. \<^verbatim>\<open>int64_t\<close> is a 64-bit word, read
  as a signed number by \<open>sint\<close>.
\<close>

type_synonym byte = "8 word"

type_synonym ptr = nat

definition NULL :: ptr where
  "NULL = 0"

definition nullptr :: ptr where
  "nullptr = 0"

text \<open>\<^verbatim>\<open>memset(p, c, n)\<close> on a fresh object: \<open>n\<close> bytes, all of them \<open>c\<close>.\<close>

definition memset :: "byte \<Rightarrow> nat \<Rightarrow> byte list" where
  "memset c n = replicate n c"

text \<open>
  \<^verbatim>\<open>memcmp(s1, s2, n)\<close> compares the first \<open>n\<close> bytes as unsigned values and returns
  at the first pair that differs; C fixes only the sign of the result, and the callers
  below test only \<open>= 0\<close> and \<open>< 0\<close>. Both objects are \<open>n\<close> bytes long wherever it is
  called, so the last equation is reached with \<open>n = 0\<close>.
\<close>

fun memcmp :: "byte list \<Rightarrow> byte list \<Rightarrow> nat \<Rightarrow> int" where
  "memcmp (x # xs) (y # ys) (Suc n) =
     (if x \<noteq> y then uint x - uint y else memcmp xs ys n)"
| "memcmp _ _ _ = 0"

subsection \<open>struct ReturnAdjustment\<close>

text \<open>
  \<^verbatim>\<open>ReturnAdjustment::VirtualAdjustment\<close> overlays \<^verbatim>\<open>{int64_t VBaseOffsetOffset}\<close>
  (Itanium) and \<^verbatim>\<open>{uint32_t VBPtrOffset; uint32_t VBIndex}\<close> (Microsoft): 8 bytes.
\<close>

definition sizeof_ReturnVirtualAdjustment :: nat where
  "sizeof_ReturnVirtualAdjustment = 8"

text \<open>The union's constructor: \<^verbatim>\<open>memset(this, 0, sizeof(*this))\<close>.\<close>

definition ReturnVirtualAdjustment_ctor :: "byte list" where
  "ReturnVirtualAdjustment_ctor = memset 0 sizeof_ReturnVirtualAdjustment"

definition ReturnVirtualAdjustment_Equals :: "byte list \<Rightarrow> byte list \<Rightarrow> bool" where
  "ReturnVirtualAdjustment_Equals this Other \<longleftrightarrow>
     memcmp this Other sizeof_ReturnVirtualAdjustment = 0"

definition ReturnVirtualAdjustment_isEmpty :: "byte list \<Rightarrow> bool" where
  "ReturnVirtualAdjustment_isEmpty this =
     (let Zero = ReturnVirtualAdjustment_ctor in ReturnVirtualAdjustment_Equals this Zero)"

definition ReturnVirtualAdjustment_Less :: "byte list \<Rightarrow> byte list \<Rightarrow> bool" where
  "ReturnVirtualAdjustment_Less this RHS \<longleftrightarrow>
     memcmp this RHS sizeof_ReturnVirtualAdjustment < 0"

record ReturnAdjustment =
  NonVirtual :: "64 word"
  Virtual :: "byte list"
  AdjustmentTarget :: ptr
  AdjustmentSource :: ptr

text \<open>
  The constructor \<^verbatim>\<open>ReturnAdjustment(bool byteAddressable, t, s)\<close>; the member
  \<^verbatim>\<open>Virtual\<close> is not in the initialiser list and is built by the union's constructor.
\<close>

definition ReturnAdjustment_ctor :: "bool \<Rightarrow> ptr \<Rightarrow> ptr \<Rightarrow> ReturnAdjustment" where
  "ReturnAdjustment_ctor byteAddressable t s =
     \<lparr> NonVirtual = 0,
       Virtual = ReturnVirtualAdjustment_ctor,
       AdjustmentTarget = (if byteAddressable then NULL else t),
       AdjustmentSource = (if byteAddressable then NULL else s) \<rparr>"

definition ReturnAdjustment_isEmpty :: "ReturnAdjustment \<Rightarrow> bool" where
  "ReturnAdjustment_isEmpty this \<longleftrightarrow>
     \<not> (NonVirtual this \<noteq> 0) \<and> ReturnVirtualAdjustment_isEmpty (Virtual this)"

definition ReturnAdjustment_eq :: "ReturnAdjustment \<Rightarrow> ReturnAdjustment \<Rightarrow> bool" where
  "ReturnAdjustment_eq LHS RHS \<longleftrightarrow>
     NonVirtual LHS = NonVirtual RHS \<and>
     ReturnVirtualAdjustment_Equals (Virtual LHS) (Virtual RHS) \<and>
     AdjustmentSource LHS = AdjustmentSource RHS \<and>
     AdjustmentTarget LHS = AdjustmentTarget RHS"

definition ReturnAdjustment_neq :: "ReturnAdjustment \<Rightarrow> ReturnAdjustment \<Rightarrow> bool" where
  "ReturnAdjustment_neq LHS RHS \<longleftrightarrow> \<not> ReturnAdjustment_eq LHS RHS"

definition ReturnAdjustment_less :: "ReturnAdjustment \<Rightarrow> ReturnAdjustment \<Rightarrow> bool" where
  "ReturnAdjustment_less LHS RHS \<longleftrightarrow>
     (if sint (NonVirtual LHS) < sint (NonVirtual RHS) then True
      else NonVirtual LHS = NonVirtual RHS \<and>
           ReturnVirtualAdjustment_Less (Virtual LHS) (Virtual RHS))"

subsection \<open>struct ThisAdjustment\<close>

text \<open>
  \<^verbatim>\<open>ThisAdjustment::VirtualAdjustment\<close> overlays
  \<^verbatim>\<open>{int64_t VCallOffsetOffset; const CXXRecordDecl* VirtualBase}\<close> (Itanium) and three
  \<^verbatim>\<open>int32_t\<close> (Microsoft): 16 bytes where pointers have 8 bytes. No proof below
  depends on the number.
\<close>

definition sizeof_ThisVirtualAdjustment :: nat where
  "sizeof_ThisVirtualAdjustment = 16"

definition ThisVirtualAdjustment_ctor :: "byte list" where
  "ThisVirtualAdjustment_ctor = memset 0 sizeof_ThisVirtualAdjustment"

definition ThisVirtualAdjustment_Equals :: "byte list \<Rightarrow> byte list \<Rightarrow> bool" where
  "ThisVirtualAdjustment_Equals this Other \<longleftrightarrow>
     memcmp this Other sizeof_ThisVirtualAdjustment = 0"

definition ThisVirtualAdjustment_isEmpty :: "byte list \<Rightarrow> bool" where
  "ThisVirtualAdjustment_isEmpty this =
     (let Zero = ThisVirtualAdjustment_ctor in ThisVirtualAdjustment_Equals this Zero)"

definition ThisVirtualAdjustment_Less :: "byte list \<Rightarrow> byte list \<Rightarrow> bool" where
  "ThisVirtualAdjustment_Less this RHS \<longleftrightarrow>
     memcmp this RHS sizeof_ThisVirtualAdjustment < 0"

text \<open>
  \<^verbatim>\<open>CXXBasePath\<close> is declared in \<^verbatim>\<open>clang/AST/CXXInheritance.h\<close>; here it is the
  sequence of the classes on the path, and the constructor leaves it empty.
\<close>

type_synonym CXXBasePath = "ptr list"

record ThisAdjustment =
  NonVirtual :: "64 word"
  Virtual :: "byte list"
  AdjustmentTarget :: ptr
  AdjustmentSource :: ptr
  AdjustmentPath :: CXXBasePath

definition ThisAdjustment_ctor :: "ptr \<Rightarrow> ptr \<Rightarrow> ThisAdjustment" where
  "ThisAdjustment_ctor t s =
     \<lparr> NonVirtual = 0,
       Virtual = ThisVirtualAdjustment_ctor,
       AdjustmentTarget = t,
       AdjustmentSource = s,
       AdjustmentPath = [] \<rparr>"

definition ThisAdjustment_isEmpty :: "ThisAdjustment \<Rightarrow> bool" where
  "ThisAdjustment_isEmpty this \<longleftrightarrow>
     \<not> (ThisAdjustment.NonVirtual this \<noteq> 0) \<and>
     ThisVirtualAdjustment_isEmpty (ThisAdjustment.Virtual this)"

definition ThisAdjustment_eq :: "ThisAdjustment \<Rightarrow> ThisAdjustment \<Rightarrow> bool" where
  "ThisAdjustment_eq LHS RHS \<longleftrightarrow>
     ThisAdjustment.NonVirtual LHS = ThisAdjustment.NonVirtual RHS \<and>
     ThisVirtualAdjustment_Equals (ThisAdjustment.Virtual LHS) (ThisAdjustment.Virtual RHS)"

definition ThisAdjustment_neq :: "ThisAdjustment \<Rightarrow> ThisAdjustment \<Rightarrow> bool" where
  "ThisAdjustment_neq LHS RHS \<longleftrightarrow> \<not> ThisAdjustment_eq LHS RHS"

definition ThisAdjustment_less :: "ThisAdjustment \<Rightarrow> ThisAdjustment \<Rightarrow> bool" where
  "ThisAdjustment_less LHS RHS \<longleftrightarrow>
     (if sint (ThisAdjustment.NonVirtual LHS) < sint (ThisAdjustment.NonVirtual RHS) then True
      else ThisAdjustment.NonVirtual LHS = ThisAdjustment.NonVirtual RHS \<and>
           ThisVirtualAdjustment_Less (ThisAdjustment.Virtual LHS) (ThisAdjustment.Virtual RHS))"

subsection \<open>struct ThunkInfo\<close>

record ThunkInfo =
  This :: ThisAdjustment
  Return :: ReturnAdjustment
  Method :: ptr
  isMemberPointerThunk :: bool

text \<open>The default constructor and the three-argument constructor.\<close>

definition ThunkInfo_default :: ThunkInfo where
  "ThunkInfo_default =
     \<lparr> This = ThisAdjustment_ctor NULL NULL,
       Return = ReturnAdjustment_ctor False 0 0,
       Method = nullptr,
       isMemberPointerThunk = False \<rparr>"

definition ThunkInfo_ctor :: "ThisAdjustment \<Rightarrow> ReturnAdjustment \<Rightarrow> ptr \<Rightarrow> ThunkInfo" where
  "ThunkInfo_ctor This' Return' Method' =
     \<lparr> This = This', Return = Return', Method = Method', isMemberPointerThunk = False \<rparr>"

definition ThunkInfo_eq :: "ThunkInfo \<Rightarrow> ThunkInfo \<Rightarrow> bool" where
  "ThunkInfo_eq LHS RHS \<longleftrightarrow>
     ThisAdjustment_eq (This LHS) (This RHS) \<and>
     ReturnAdjustment_eq (Return LHS) (Return RHS) \<and>
     Method LHS = Method RHS"

definition ThunkInfo_isEmpty :: "ThunkInfo \<Rightarrow> bool" where
  "ThunkInfo_isEmpty this \<longleftrightarrow>
     ThisAdjustment_isEmpty (This this) \<and>
     ReturnAdjustment_isEmpty (Return this) \<and>
     Method this = nullptr"

subsection \<open>Object representations of the right size\<close>

text \<open>
  A value of a C++ type has the size of its type: the virtual adjustment of a
  \<^verbatim>\<open>ReturnAdjustment\<close> has \<open>sizeof_ReturnVirtualAdjustment\<close> bytes, that of a
  \<^verbatim>\<open>ThisAdjustment\<close> has \<open>sizeof_ThisVirtualAdjustment\<close> bytes. The record types
  also hold byte lists of other lengths, so that the properties of values are stated
  for well-formed records.
\<close>

definition ReturnAdjustment_wf :: "ReturnAdjustment \<Rightarrow> bool" where
  "ReturnAdjustment_wf a \<longleftrightarrow>
     length (ReturnAdjustment.Virtual a) = sizeof_ReturnVirtualAdjustment"

definition ThisAdjustment_wf :: "ThisAdjustment \<Rightarrow> bool" where
  "ThisAdjustment_wf a \<longleftrightarrow>
     length (ThisAdjustment.Virtual a) = sizeof_ThisVirtualAdjustment"

section \<open>The adjustment calculator and the thunk decision\<close>

text \<open>
  Modelled from the spec: the inheritance path model is not among the sources. A
  ClassPath is an ordered sequence of (from-class, to-class) steps from a derived type
  towards a base, each step tagged as crossing a virtual base or not and carrying the
  fixed layout offset of the sub-object it enters.
\<close>

record PathStep =
  from_class :: ptr
  to_class :: ptr
  virtual_crossing :: bool
  fixed_offset :: "64 word"

type_synonym ClassPath = "PathStep list"

text \<open>
  Modelled from the spec: the ABI strategy is not among the sources. It encodes the
  virtual part of an adjustment for a path, and it is where the target's
  byte-addressable capability flag is consulted.
\<close>

record ABIStrategy =
  encode_virtual_return :: "ClassPath \<Rightarrow> byte list"
  encode_virtual_this :: "ClassPath \<Rightarrow> byte list"
  byteAddressable :: bool

datatype build_error = MalformedHierarchy | MalformedTable

text \<open>
  Modelled from the spec: the walk of the adjustment calculator is not among the
  sources. It accumulates the fixed offset of each non-virtual step and stops at the
  first step that crosses a virtual base; the flag tells whether it met one.
\<close>

fun walk_path :: "ClassPath \<Rightarrow> 64 word \<Rightarrow> 64 word \<times> bool" where
  "walk_path [] acc = (acc, False)"
| "walk_path (s # rest) acc =
     (if virtual_crossing s then (acc, True) else walk_path rest (acc + fixed_offset s))"

text \<open>
  Modelled from the spec: the two endpoints of a path (not among the sources): the class
  the first step leaves and the class the last step enters, \<^verbatim>\<open>NULL\<close> for no step.
\<close>

definition path_source :: "ClassPath \<Rightarrow> ptr" where
  "path_source path = (case path of [] \<Rightarrow> NULL | s # _ \<Rightarrow> from_class s)"

definition path_target :: "ClassPath \<Rightarrow> ptr" where
  "path_target path = (case rev path of [] \<Rightarrow> NULL | s # _ \<Rightarrow> to_class s)"

text \<open>
  Modelled from the spec: \<^verbatim>\<open>compute_this_adjustment(path, abi)\<close> is not among the
  sources. A path with more than one virtual step is rejected; otherwise the non-virtual
  offset is the accumulated prefix, and the virtual part is the strategy's descriptor
  when a virtual base is crossed and stays as constructed when none is.
\<close>

definition compute_this_adjustment ::
    "ClassPath \<Rightarrow> ABIStrategy \<Rightarrow> build_error + ThisAdjustment" where
  "compute_this_adjustment path abi =
     (if 1 < length (filter virtual_crossing path) then Inl MalformedHierarchy
      else
        let (nv, crossed) = walk_path path 0;
            a = ThisAdjustment_ctor (path_target path) (path_source path)
        in Inr (a \<lparr> ThisAdjustment.NonVirtual := nv,
                    ThisAdjustment.Virtual :=
                      (if crossed then encode_virtual_this abi path
                       else ThisAdjustment.Virtual a),
                    AdjustmentPath := map to_class path \<rparr>))"

text \<open>
  Modelled from the spec: \<^verbatim>\<open>compute_return_adjustment(path, abi)\<close> is not among the
  sources; the same walk, on a value built by the constructor of \<^verbatim>\<open>ReturnAdjustment\<close>.
\<close>

definition compute_return_adjustment ::
    "ClassPath \<Rightarrow> ABIStrategy \<Rightarrow> build_error + ReturnAdjustment" where
  "compute_return_adjustment path abi =
     (if 1 < length (filter virtual_crossing path) then Inl MalformedHierarchy
      else
        let (nv, crossed) = walk_path path 0;
            a = ReturnAdjustment_ctor (byteAddressable abi) (path_target path) (path_source path)
        in Inr (a \<lparr> ReturnAdjustment.NonVirtual := nv,
                    ReturnAdjustment.Virtual :=
                      (if crossed then encode_virtual_return abi path
                       else ReturnAdjustment.Virtual a) \<rparr>))"

text \<open>
  Modelled from the spec: \<^verbatim>\<open>needs_thunk\<close> is not among the sources. A thunk is needed
  when the this adjustment is not empty, or the return adjustment is not empty, or the
  overridden method is recorded as a disambiguator: when the thunk is not empty.
\<close>

definition needs_thunk :: "ThunkInfo \<Rightarrow> bool" where
  "needs_thunk t \<longleftrightarrow> \<not> ThunkInfo_isEmpty t"

section \<open>The multiversion resolver\<close>

text \<open>
  Modelled from the spec: the resolver builder is not among the sources, only the test
  of the resolvers it emits. A candidate pairs a feature predicate with an
  implementation; the predicate is the trivially true \<open>Default\<close>, a named
  micro-architecture (\<^verbatim>\<open>target("arch=ivybridge")\<close>) or an instruction-set extension
  (\<^verbatim>\<open>target("sse4.2")\<close>).
\<close>

datatype feature_predicate = Default | Arch string | Feature string

type_synonym 'impl candidate = "feature_predicate \<times> 'impl"

text \<open>
  Modelled from the spec: a runtime feature check (not among the sources) is passed when
  the required name is among the detected capabilities of the hardware.
\<close>

fun predicate_holds :: "feature_predicate \<Rightarrow> string set \<Rightarrow> bool" where
  "predicate_holds Default detected = True"
| "predicate_holds (Arch a) detected = (a \<in> detected)"
| "predicate_holds (Feature f) detected = (f \<in> detected)"

text \<open>
  Modelled from the spec: the ResolverDescriptor (not among the sources) is a
  priority-ordered sequence of runtime feature checks that ends in the fallback.
\<close>

record 'impl ResolverDescriptor =
  checks :: "'impl candidate list"
  fallback :: 'impl

text \<open>
  Modelled from the spec: \<^verbatim>\<open>build_resolver(candidates)\<close> is not among the sources. The
  candidates come ordered most specific first. The table is malformed, a fatal build
  error, unless exactly one fallback exists and no feature predicate occurs twice;
  otherwise the checks keep the order of the candidates and the fallback comes last.
\<close>

definition build_resolver :: "'impl candidate list \<Rightarrow> build_error + 'impl ResolverDescriptor" where
  "build_resolver candidates =
     (case filter (\<lambda>c. fst c = Default) candidates of
        [fb] \<Rightarrow>
          if distinct (map fst candidates)
          then Inr \<lparr> checks = filter (\<lambda>c. fst c \<noteq> Default) candidates, fallback = snd fb \<rparr>
          else Inl MalformedTable
      | _ \<Rightarrow> Inl MalformedTable)"

text \<open>
  Modelled from the spec: running the resolver (not among the sources) makes the checks
  in order and returns the implementation of the first that passes, the fallback when
  none does.
\<close>

fun select_candidate :: "'impl candidate list \<Rightarrow> string set \<Rightarrow> 'impl \<Rightarrow> 'impl" where
  "select_candidate [] detected fb = fb"
| "select_candidate (c # rest) detected fb =
     (if predicate_holds (fst c) detected then snd c else select_candidate rest detected fb)"

definition run_resolver :: "'impl ResolverDescriptor \<Rightarrow> string set \<Rightarrow> 'impl" where
  "run_resolver d detected = select_candidate (checks d) detected (fallback d)"

section \<open>Properties of the byte comparison\<close>

lemma memcmp_Cons:
  "memcmp (x # xs) (y # ys) (Suc n) = (if x = y then memcmp xs ys n else uint x - uint y)"
  by simp

lemma memcmp_same: "memcmp xs xs n = 0"
proof (induction xs arbitrary: n)
  case (Cons x xs)
  then show ?case by (cases n) simp_all
qed simp

lemma memcmp_swap: "memcmp ys xs n = - memcmp xs ys n"
proof (induction xs arbitrary: ys n)
  case Nil
  then show ?case by (cases ys; cases n) simp_all
next
  case (Cons x xs)
  then show ?case by (cases ys; cases n) auto
qed

lemma memcmp_eq_0_iff:
  "length xs = length ys \<Longrightarrow> memcmp xs ys (length ys) = 0 \<longleftrightarrow> xs = ys"
  by (induction xs ys rule: list_induct2) (auto simp: word_uint_eq_iff)

lemma memcmp_less_Cons:
  "memcmp (x # xs) (y # ys) (Suc n) < 0 \<longleftrightarrow> x < y \<or> (x = y \<and> memcmp xs ys n < 0)"
  by (auto simp: word_less_def)

lemma memcmp_less_iff:
  "length xs = length ys \<Longrightarrow>
   memcmp xs ys (length ys) < 0 \<longleftrightarrow>
     (\<exists>i<length ys. take i xs = take i ys \<and> xs ! i < ys ! i)"
proof (induction xs ys rule: list_induct2)
  case Nil
  then show ?case by simp
next
  case (Cons x xs y ys)
  let ?n = "length ys"
  note IH = Cons.IH
  show ?case
  proof
    assume "memcmp (x # xs) (y # ys) (length (y # ys)) < 0"
    then consider "x < y" | "x = y" "memcmp xs ys ?n < 0"
      by (auto simp: word_less_def split: if_splits)
    then show "\<exists>i<length (y # ys). take i (x # xs) = take i (y # ys) \<and> (x # xs) ! i < (y # ys) ! i"
    proof cases
      case 1
      then show ?thesis by (intro exI [of _ 0]) simp
    next
      case 2
      then obtain i where "i < ?n" "take i xs = take i ys" "xs ! i < ys ! i"
        using IH by blast
      then show ?thesis using 2 by (intro exI [of _ "Suc i"]) simp
    qed
  next
    assume "\<exists>i<length (y # ys). take i (x # xs) = take i (y # ys) \<and> (x # xs) ! i < (y # ys) ! i"
    then obtain i where i: "i < Suc ?n" "take i (x # xs) = take i (y # ys)"
      "(x # xs) ! i < (y # ys) ! i" by auto
    show "memcmp (x # xs) (y # ys) (length (y # ys)) < 0"
    proof (cases i)
      case 0
      with i show ?thesis by (auto simp: word_less_def)
    next
      case (Suc j)
      with i have "x = y" "j < ?n" "take j xs = take j ys" "xs ! j < ys ! j" by auto
      then show ?thesis using IH by auto
    qed
  qed
qed

lemma memcmp_trans:
  "length xs = length ys \<Longrightarrow> length ys = length zs \<Longrightarrow>
   memcmp xs ys (length zs) < 0 \<Longrightarrow> memcmp ys zs (length zs) < 0 \<Longrightarrow>
   memcmp xs zs (length zs) < 0"
proof (induction xs ys zs rule: list_induct3)
  case Nil
  then show ?case by simp
next
  case (Cons x xs y ys z zs)
  from Cons.prems Cons.IH show ?case
    unfolding list.size add_Suc_right add_0_right memcmp_less_Cons
    by auto
qed

lemma memcmp_zero_iff:
  "memcmp xs (memset 0 (length xs)) (length xs) = 0 \<longleftrightarrow> (\<forall>b\<in>set xs. b = 0)"
proof -
  have "memcmp xs (replicate (length xs) 0) (length (replicate (length xs) (0::byte))) = 0
        \<longleftrightarrow> xs = replicate (length xs) 0"
    by (rule memcmp_eq_0_iff) simp
  moreover have "xs = replicate (length xs) 0 \<longleftrightarrow> (\<forall>b\<in>set xs. b = 0)"
    by (metis in_set_replicate replicate_length_same)
  ultimately show ?thesis by (simp add: memset_def)
qed


lemma ReturnVirtualAdjustment_Equals_iff:
  "length xs = sizeof_ReturnVirtualAdjustment \<Longrightarrow>
   length ys = sizeof_ReturnVirtualAdjustment \<Longrightarrow>
   ReturnVirtualAdjustment_Equals xs ys \<longleftrightarrow> xs = ys"
  using memcmp_eq_0_iff [of xs ys] by (simp add: ReturnVirtualAdjustment_Equals_def)

lemma ThisVirtualAdjustment_Equals_iff:
  "length xs = sizeof_ThisVirtualAdjustment \<Longrightarrow>
   length ys = sizeof_ThisVirtualAdjustment \<Longrightarrow>
   ThisVirtualAdjustment_Equals xs ys \<longleftrightarrow> xs = ys"
  using memcmp_eq_0_iff [of xs ys] by (simp add: ThisVirtualAdjustment_Equals_def)

lemma ReturnVirtualAdjustment_isEmpty_iff:
  "length xs = sizeof_ReturnVirtualAdjustment \<Longrightarrow>
   ReturnVirtualAdjustment_isEmpty xs \<longleftrightarrow> (\<forall>b\<in>set xs. b = 0)"
  using memcmp_zero_iff [of xs]
  by (simp add: ReturnVirtualAdjustment_isEmpty_def ReturnVirtualAdjustment_Equals_def
      ReturnVirtualAdjustment_ctor_def)

lemma ThisVirtualAdjustment_isEmpty_iff:
  "length xs = sizeof_ThisVirtualAdjustment \<Longrightarrow>
   ThisVirtualAdjustment_isEmpty xs \<longleftrightarrow> (\<forall>b\<in>set xs. b = 0)"
  using memcmp_zero_iff [of xs]
  by (simp add: ThisVirtualAdjustment_isEmpty_def ThisVirtualAdjustment_Equals_def
      ThisVirtualAdjustment_ctor_def)

lemma ReturnVirtualAdjustment_ctor_isEmpty:
  "ReturnVirtualAdjustment_isEmpty ReturnVirtualAdjustment_ctor"
  by (simp add: ReturnVirtualAdjustment_isEmpty_def ReturnVirtualAdjustment_Equals_def
      memcmp_same)

lemma ThisVirtualAdjustment_ctor_isEmpty:
  "ThisVirtualAdjustment_isEmpty ThisVirtualAdjustment_ctor"
  by (simp add: ThisVirtualAdjustment_isEmpty_def ThisVirtualAdjustment_Equals_def
      memcmp_same)

lemma ReturnAdjustment_ctor_wf: "ReturnAdjustment_wf (ReturnAdjustment_ctor b t s)"
  by (simp add: ReturnAdjustment_wf_def ReturnAdjustment_ctor_def
      ReturnVirtualAdjustment_ctor_def memset_def)

lemma ThisAdjustment_ctor_wf: "ThisAdjustment_wf (ThisAdjustment_ctor t s)"
  by (simp add: ThisAdjustment_wf_def ThisAdjustment_ctor_def
      ThisVirtualAdjustment_ctor_def memset_def)

section \<open>Properties of the order and of equality\<close>

lemma less_core_iff:
  assumes "length v1 = n" and "length v2 = n"
  shows "(if sint a < sint b then True else a = b \<and> memcmp v1 v2 n < 0) \<longleftrightarrow>
         (sint a < sint b \<or>
          a = b \<and> (\<exists>i < n. take i v1 = take i v2 \<and> v1 ! i < v2 ! i))"
  using memcmp_less_iff [of v1 v2] assms by auto

lemma less_core_irrefl:
  "\<not> (if sint a < sint a then True else a = a \<and> memcmp v v n < 0)"
  by (simp add: memcmp_same)

lemma less_core_trans:
  assumes "length v1 = n" and "length v2 = n" and "length v3 = n"
    and "if sint a < sint b then True else a = b \<and> memcmp v1 v2 n < 0"
    and "if sint b < sint c then True else b = c \<and> memcmp v2 v3 n < 0"
  shows "if sint a < sint c then True else a = c \<and> memcmp v1 v3 n < 0"
proof (cases "sint a < sint b \<or> sint b < sint c")
  case True
  with assms(4,5) have "sint a < sint c"
    by (auto split: if_splits)
  then show ?thesis by simp
next
  case False
  with assms(4,5) have "a = b" "b = c" "memcmp v1 v2 n < 0" "memcmp v2 v3 n < 0"
    by (auto split: if_splits)
  moreover from this assms(1-3) have "memcmp v1 v3 n < 0"
    using memcmp_trans [of v1 v2 v3] by simp
  ultimately show ?thesis by simp
qed

lemma less_core_incomparable:
  assumes "length v1 = n" and "length v2 = n"
  shows "(\<not> (if sint a < sint b then True else a = b \<and> memcmp v1 v2 n < 0) \<and>
          \<not> (if sint b < sint a then True else b = a \<and> memcmp v2 v1 n < 0)) \<longleftrightarrow>
         (a = b \<and> v1 = v2)"
proof -
  have eq: "memcmp v1 v2 n = 0 \<longleftrightarrow> v1 = v2"
    using memcmp_eq_0_iff [of v1 v2] assms by simp
  have sw: "memcmp v2 v1 n = - memcmp v1 v2 n"
    by (rule memcmp_swap)
  have inj: "sint a = sint b \<longleftrightarrow> a = b"
    by (auto intro: signed_word_eqI)
  show ?thesis
  proof
    assume h: "\<not> (if sint a < sint b then True else a = b \<and> memcmp v1 v2 n < 0) \<and>
          \<not> (if sint b < sint a then True else b = a \<and> memcmp v2 v1 n < 0)"
    then have "sint a = sint b" by (auto split: if_splits)
    then have ab: "a = b" using inj by simp
    with h sw have "memcmp v1 v2 n = 0" by (auto split: if_splits)
    with eq ab show "a = b \<and> v1 = v2" by simp
  next
    assume "a = b \<and> v1 = v2"
    then show "\<not> (if sint a < sint b then True else a = b \<and> memcmp v1 v2 n < 0) \<and>
          \<not> (if sint b < sint a then True else b = a \<and> memcmp v2 v1 n < 0)"
      by (simp add: memcmp_same)
  qed
qed

lemma ReturnAdjustment_incomparable_iff:
  assumes "ReturnAdjustment_wf x" and "ReturnAdjustment_wf y"
  shows "(\<not> ReturnAdjustment_less x y \<and> \<not> ReturnAdjustment_less y x) \<longleftrightarrow>
         (ReturnAdjustment.NonVirtual x = ReturnAdjustment.NonVirtual y \<and>
          ReturnAdjustment.Virtual x = ReturnAdjustment.Virtual y)"
proof -
  have l: "length (ReturnAdjustment.Virtual x) = sizeof_ReturnVirtualAdjustment"
    "length (ReturnAdjustment.Virtual y) = sizeof_ReturnVirtualAdjustment"
    using assms by (simp_all add: ReturnAdjustment_wf_def)
  show ?thesis
    unfolding ReturnAdjustment_less_def ReturnVirtualAdjustment_Less_def
    by (rule less_core_incomparable [OF l])
qed

lemma ThisAdjustment_incomparable_iff:
  assumes "ThisAdjustment_wf x" and "ThisAdjustment_wf y"
  shows "(\<not> ThisAdjustment_less x y \<and> \<not> ThisAdjustment_less y x) \<longleftrightarrow>
         (ThisAdjustment.NonVirtual x = ThisAdjustment.NonVirtual y \<and>
          ThisAdjustment.Virtual x = ThisAdjustment.Virtual y)"
proof -
  have l: "length (ThisAdjustment.Virtual x) = sizeof_ThisVirtualAdjustment"
    "length (ThisAdjustment.Virtual y) = sizeof_ThisVirtualAdjustment"
    using assms by (simp_all add: ThisAdjustment_wf_def)
  show ?thesis
    unfolding ThisAdjustment_less_def ThisVirtualAdjustment_Less_def
    by (rule less_core_incomparable [OF l])
qed

lemma ReturnAdjustment_less_trans:
  assumes "ReturnAdjustment_wf x" and "ReturnAdjustment_wf y" and "ReturnAdjustment_wf z"
    and "ReturnAdjustment_less x y" and "ReturnAdjustment_less y z"
  shows "ReturnAdjustment_less x z"
proof -
  have l: "length (ReturnAdjustment.Virtual x) = sizeof_ReturnVirtualAdjustment"
    "length (ReturnAdjustment.Virtual y) = sizeof_ReturnVirtualAdjustment"
    "length (ReturnAdjustment.Virtual z) = sizeof_ReturnVirtualAdjustment"
    using assms(1-3) by (simp_all add: ReturnAdjustment_wf_def)
  from assms(4,5) show ?thesis
    unfolding ReturnAdjustment_less_def ReturnVirtualAdjustment_Less_def
    by (rule less_core_trans [OF l])
qed

lemma ThisAdjustment_less_trans:
  assumes "ThisAdjustment_wf x" and "ThisAdjustment_wf y" and "ThisAdjustment_wf z"
    and "ThisAdjustment_less x y" and "ThisAdjustment_less y z"
  shows "ThisAdjustment_less x z"
proof -
  have l: "length (ThisAdjustment.Virtual x) = sizeof_ThisVirtualAdjustment"
    "length (ThisAdjustment.Virtual y) = sizeof_ThisVirtualAdjustment"
    "length (ThisAdjustment.Virtual z) = sizeof_ThisVirtualAdjustment"
    using assms(1-3) by (simp_all add: ThisAdjustment_wf_def)
  from assms(4,5) show ?thesis
    unfolding ThisAdjustment_less_def ThisVirtualAdjustment_Less_def
    by (rule less_core_trans [OF l])
qed

lemma ReturnAdjustment_less_iff:
  assumes "ReturnAdjustment_wf x" and "ReturnAdjustment_wf y"
  shows "ReturnAdjustment_less x y \<longleftrightarrow>
     (sint (ReturnAdjustment.NonVirtual x) < sint (ReturnAdjustment.NonVirtual y) \<or>
      ReturnAdjustment.NonVirtual x = ReturnAdjustment.NonVirtual y \<and>
      (\<exists>i < sizeof_ReturnVirtualAdjustment.
          take i (ReturnAdjustment.Virtual x) = take i (ReturnAdjustment.Virtual y) \<and>
          ReturnAdjustment.Virtual x ! i < ReturnAdjustment.Virtual y ! i))"
proof -
  have l: "length (ReturnAdjustment.Virtual x) = sizeof_ReturnVirtualAdjustment"
    "length (ReturnAdjustment.Virtual y) = sizeof_ReturnVirtualAdjustment"
    using assms by (simp_all add: ReturnAdjustment_wf_def)
  show ?thesis
    unfolding ReturnAdjustment_less_def ReturnVirtualAdjustment_Less_def
    by (rule less_core_iff [OF l])
qed

lemma ThisAdjustment_less_iff:
  assumes "ThisAdjustment_wf x" and "ThisAdjustment_wf y"
  shows "ThisAdjustment_less x y \<longleftrightarrow>
     (sint (ThisAdjustment.NonVirtual x) < sint (ThisAdjustment.NonVirtual y) \<or>
      ThisAdjustment.NonVirtual x = ThisAdjustment.NonVirtual y \<and>
      (\<exists>i < sizeof_ThisVirtualAdjustment.
          take i (ThisAdjustment.Virtual x) = take i (ThisAdjustment.Virtual y) \<and>
          ThisAdjustment.Virtual x ! i < ThisAdjustment.Virtual y ! i))"
proof -
  have l: "length (ThisAdjustment.Virtual x) = sizeof_ThisVirtualAdjustment"
    "length (ThisAdjustment.Virtual y) = sizeof_ThisVirtualAdjustment"
    using assms by (simp_all add: ThisAdjustment_wf_def)
  show ?thesis
    unfolding ThisAdjustment_less_def ThisVirtualAdjustment_Less_def
    by (rule less_core_iff [OF l])
qed

lemma ReturnAdjustment_less_irrefl: "\<not> ReturnAdjustment_less x x"
  unfolding ReturnAdjustment_less_def ReturnVirtualAdjustment_Less_def
  by (rule less_core_irrefl)

lemma ThisAdjustment_less_irrefl: "\<not> ThisAdjustment_less x x"
  unfolding ThisAdjustment_less_def ThisVirtualAdjustment_Less_def
  by (rule less_core_irrefl)

lemma ReturnAdjustment_eq_iff:
  assumes "ReturnAdjustment_wf x" and "ReturnAdjustment_wf y"
  shows "ReturnAdjustment_eq x y \<longleftrightarrow>
     (ReturnAdjustment.NonVirtual x = ReturnAdjustment.NonVirtual y \<and>
      ReturnAdjustment.Virtual x = ReturnAdjustment.Virtual y \<and>
      ReturnAdjustment.AdjustmentSource x = ReturnAdjustment.AdjustmentSource y \<and>
      ReturnAdjustment.AdjustmentTarget x = ReturnAdjustment.AdjustmentTarget y)"
  using assms
  by (simp add: ReturnAdjustment_eq_def ReturnAdjustment_wf_def
      ReturnVirtualAdjustment_Equals_iff)

lemma ThisAdjustment_eq_iff:
  assumes "ThisAdjustment_wf x" and "ThisAdjustment_wf y"
  shows "ThisAdjustment_eq x y \<longleftrightarrow>
     (ThisAdjustment.NonVirtual x = ThisAdjustment.NonVirtual y \<and>
      ThisAdjustment.Virtual x = ThisAdjustment.Virtual y)"
  using assms
  by (simp add: ThisAdjustment_eq_def ThisAdjustment_wf_def
      ThisVirtualAdjustment_Equals_iff)

section \<open>Properties of the adjustments and of thunks\<close>

text \<open>
  Claim C1: \<^verbatim>\<open>ThunkInfo::isEmpty()\<close> returns true exactly when the this adjustment is
  empty, the return adjustment is empty and the overridden method is null.
\<close>

theorem ThunkInfo_isEmpty_iff:
  "ThunkInfo_isEmpty t \<longleftrightarrow>
     (ThisAdjustment_isEmpty (This t) \<and> ReturnAdjustment_isEmpty (Return t) \<and>
      Method t = nullptr)"
  by (simp add: ThunkInfo_isEmpty_def)

text \<open>
  Claim C2: an adjustment, return or this, is empty if and only if its non-virtual offset
  is 0 and every byte of its virtual union is zero; and an adjustment as its constructor
  builds it is empty.
\<close>

theorem adjustment_isEmpty_iff:
  assumes "ReturnAdjustment_wf r" and "ThisAdjustment_wf a"
  shows "(ReturnAdjustment_isEmpty r \<longleftrightarrow>
            ReturnAdjustment.NonVirtual r = 0 \<and>
            (\<forall>i < sizeof_ReturnVirtualAdjustment. ReturnAdjustment.Virtual r ! i = 0)) \<and>
         (ThisAdjustment_isEmpty a \<longleftrightarrow>
            ThisAdjustment.NonVirtual a = 0 \<and>
            (\<forall>i < sizeof_ThisVirtualAdjustment. ThisAdjustment.Virtual a ! i = 0)) \<and>
         ReturnAdjustment_isEmpty (ReturnAdjustment_ctor b t s) \<and>
         ThisAdjustment_isEmpty (ThisAdjustment_ctor t' s')"
proof (intro conjI)
  have "length (ReturnAdjustment.Virtual r) = sizeof_ReturnVirtualAdjustment"
    using assms(1) by (simp add: ReturnAdjustment_wf_def)
  then show "ReturnAdjustment_isEmpty r \<longleftrightarrow>
      ReturnAdjustment.NonVirtual r = 0 \<and>
      (\<forall>i < sizeof_ReturnVirtualAdjustment. ReturnAdjustment.Virtual r ! i = 0)"
    by (simp add: ReturnAdjustment_isEmpty_def ReturnVirtualAdjustment_isEmpty_iff
        all_set_conv_all_nth)
  have "length (ThisAdjustment.Virtual a) = sizeof_ThisVirtualAdjustment"
    using assms(2) by (simp add: ThisAdjustment_wf_def)
  then show "ThisAdjustment_isEmpty a \<longleftrightarrow>
      ThisAdjustment.NonVirtual a = 0 \<and>
      (\<forall>i < sizeof_ThisVirtualAdjustment. ThisAdjustment.Virtual a ! i = 0)"
    by (simp add: ThisAdjustment_isEmpty_def ThisVirtualAdjustment_isEmpty_iff
        all_set_conv_all_nth)
  show "ReturnAdjustment_isEmpty (ReturnAdjustment_ctor b t s)"
    by (simp add: ReturnAdjustment_isEmpty_def ReturnAdjustment_ctor_def
        ReturnVirtualAdjustment_ctor_isEmpty)
  show "ThisAdjustment_isEmpty (ThisAdjustment_ctor t' s')"
    by (simp add: ThisAdjustment_isEmpty_def ThisAdjustment_ctor_def
        ThisVirtualAdjustment_ctor_isEmpty)
qed

theorem adjustment_isEmpty_iff_witness:
  "ReturnAdjustment_wf (ReturnAdjustment_ctor False 1 2 \<lparr> ReturnAdjustment.NonVirtual := 8 \<rparr>) \<and>
   ThisAdjustment_wf (ThisAdjustment_ctor 1 2) \<and>
   \<not> ReturnAdjustment_isEmpty (ReturnAdjustment_ctor False 1 2 \<lparr> ReturnAdjustment.NonVirtual := 8 \<rparr>) \<and>
   ThisAdjustment_isEmpty (ThisAdjustment_ctor 1 2)"
proof -
  let ?r = "ReturnAdjustment_ctor False 1 2 \<lparr> ReturnAdjustment.NonVirtual := 8 \<rparr>"
  have r: "ReturnAdjustment_wf ?r"
    by (simp add: ReturnAdjustment_wf_def ReturnAdjustment_ctor_def
        ReturnVirtualAdjustment_ctor_def memset_def)
  have a: "ThisAdjustment_wf (ThisAdjustment_ctor 1 2)"
    by (simp add: ThisAdjustment_wf_def ThisAdjustment_ctor_def
        ThisVirtualAdjustment_ctor_def memset_def)
  note T = adjustment_isEmpty_iff [OF r a, of False 1 2 1 2]
  from T have "ReturnAdjustment_isEmpty ?r \<longrightarrow> ReturnAdjustment.NonVirtual ?r = 0"
    by blast
  then have 1: "\<not> ReturnAdjustment_isEmpty ?r"
    by (auto simp: ReturnAdjustment_ctor_def)
  from T have 2: "ThisAdjustment_isEmpty (ThisAdjustment_ctor 1 2)"
    by blast
  from r a 1 2 show ?thesis by blast
qed

text \<open>
  Claim C3, as the code has it: for both adjustments \<^verbatim>\<open>operator<\<close> compares the
  non-virtual offset first, as a signed number, and then the virtual union byte by byte;
  it is a strict weak order (irreflexive, transitive, with a transitive incomparability);
  the equivalence it induces is equality of the non-virtual offset and of the bytes of the
  union. For \<^verbatim>\<open>ThisAdjustment\<close> that is \<^verbatim>\<open>operator==\<close>; for \<^verbatim>\<open>ReturnAdjustment\<close>
  \<^verbatim>\<open>operator==\<close> holds exactly when the two values are equivalent and have the same
  \<^verbatim>\<open>AdjustmentSource\<close> and the same \<^verbatim>\<open>AdjustmentTarget\<close>.
\<close>

theorem adjustment_less_strict_weak_order:
  assumes "ReturnAdjustment_wf x" and "ReturnAdjustment_wf y" and "ReturnAdjustment_wf z"
    and "ThisAdjustment_wf a" and "ThisAdjustment_wf b" and "ThisAdjustment_wf c"
  shows
    "(ReturnAdjustment_less x y \<longleftrightarrow>
        (sint (ReturnAdjustment.NonVirtual x) < sint (ReturnAdjustment.NonVirtual y) \<or>
         ReturnAdjustment.NonVirtual x = ReturnAdjustment.NonVirtual y \<and>
         (\<exists>i < sizeof_ReturnVirtualAdjustment.
             take i (ReturnAdjustment.Virtual x) = take i (ReturnAdjustment.Virtual y) \<and>
             ReturnAdjustment.Virtual x ! i < ReturnAdjustment.Virtual y ! i))) \<and>
     \<not> ReturnAdjustment_less x x \<and>
     (ReturnAdjustment_less x y \<and> ReturnAdjustment_less y z \<longrightarrow> ReturnAdjustment_less x z) \<and>
     (\<not> ReturnAdjustment_less x y \<and> \<not> ReturnAdjustment_less y x \<and>
      \<not> ReturnAdjustment_less y z \<and> \<not> ReturnAdjustment_less z y \<longrightarrow>
      \<not> ReturnAdjustment_less x z \<and> \<not> ReturnAdjustment_less z x) \<and>
     (\<not> ReturnAdjustment_less x y \<and> \<not> ReturnAdjustment_less y x \<longleftrightarrow>
        ReturnAdjustment.NonVirtual x = ReturnAdjustment.NonVirtual y \<and>
        ReturnAdjustment.Virtual x = ReturnAdjustment.Virtual y) \<and>
     (ReturnAdjustment_eq x y \<longleftrightarrow>
        \<not> ReturnAdjustment_less x y \<and> \<not> ReturnAdjustment_less y x \<and>
        ReturnAdjustment.AdjustmentSource x = ReturnAdjustment.AdjustmentSource y \<and>
        ReturnAdjustment.AdjustmentTarget x = ReturnAdjustment.AdjustmentTarget y) \<and>
     (ThisAdjustment_less a b \<longleftrightarrow>
        (sint (ThisAdjustment.NonVirtual a) < sint (ThisAdjustment.NonVirtual b) \<or>
         ThisAdjustment.NonVirtual a = ThisAdjustment.NonVirtual b \<and>
         (\<exists>i < sizeof_ThisVirtualAdjustment.
             take i (ThisAdjustment.Virtual a) = take i (ThisAdjustment.Virtual b) \<and>
             ThisAdjustment.Virtual a ! i < ThisAdjustment.Virtual b ! i))) \<and>
     \<not> ThisAdjustment_less a a \<and>
     (ThisAdjustment_less a b \<and> ThisAdjustment_less b c \<longrightarrow> ThisAdjustment_less a c) \<and>
     (\<not> ThisAdjustment_less a b \<and> \<not> ThisAdjustment_less b a \<and>
      \<not> ThisAdjustment_less b c \<and> \<not> ThisAdjustment_less c b \<longrightarrow>
      \<not> ThisAdjustment_less a c \<and> \<not> ThisAdjustment_less c a) \<and>
     (ThisAdjustment_eq a b \<longleftrightarrow> \<not> ThisAdjustment_less a b \<and> \<not> ThisAdjustment_less b a)"
proof -
  note Rxy = ReturnAdjustment_incomparable_iff [OF assms(1,2)]
  note Ryz = ReturnAdjustment_incomparable_iff [OF assms(2,3)]
  note Rxz = ReturnAdjustment_incomparable_iff [OF assms(1,3)]
  note Tab = ThisAdjustment_incomparable_iff [OF assms(4,5)]
  note Tbc = ThisAdjustment_incomparable_iff [OF assms(5,6)]
  note Tac = ThisAdjustment_incomparable_iff [OF assms(4,6)]
  have R1: "ReturnAdjustment_less x y \<and> ReturnAdjustment_less y z \<longrightarrow> ReturnAdjustment_less x z"
    using ReturnAdjustment_less_trans [OF assms(1-3)] by blast
  have R2: "\<not> ReturnAdjustment_less x y \<and> \<not> ReturnAdjustment_less y x \<and>
      \<not> ReturnAdjustment_less y z \<and> \<not> ReturnAdjustment_less z y \<longrightarrow>
      \<not> ReturnAdjustment_less x z \<and> \<not> ReturnAdjustment_less z x"
    using Rxy Ryz Rxz by auto
  have R3: "ReturnAdjustment_eq x y \<longleftrightarrow>
        \<not> ReturnAdjustment_less x y \<and> \<not> ReturnAdjustment_less y x \<and>
        ReturnAdjustment.AdjustmentSource x = ReturnAdjustment.AdjustmentSource y \<and>
        ReturnAdjustment.AdjustmentTarget x = ReturnAdjustment.AdjustmentTarget y"
    using Rxy ReturnAdjustment_eq_iff [OF assms(1,2)] by blast
  have T1: "ThisAdjustment_less a b \<and> ThisAdjustment_less b c \<longrightarrow> ThisAdjustment_less a c"
    using ThisAdjustment_less_trans [OF assms(4-6)] by blast
  have T2: "\<not> ThisAdjustment_less a b \<and> \<not> ThisAdjustment_less b a \<and>
      \<not> ThisAdjustment_less b c \<and> \<not> ThisAdjustment_less c b \<longrightarrow>
      \<not> ThisAdjustment_less a c \<and> \<not> ThisAdjustment_less c a"
    using Tab Tbc Tac by auto
  have T3: "ThisAdjustment_eq a b \<longleftrightarrow> \<not> ThisAdjustment_less a b \<and> \<not> ThisAdjustment_less b a"
    using Tab ThisAdjustment_eq_iff [OF assms(4,5)] by blast
  from ReturnAdjustment_less_iff [OF assms(1,2)] ReturnAdjustment_less_irrefl [of x] R1 R2 Rxy R3
    ThisAdjustment_less_iff [OF assms(4,5)] ThisAdjustment_less_irrefl [of a] T1 T2 T3
  show ?thesis by (intro conjI)
qed

theorem adjustment_less_strict_weak_order_witness:
  "(ReturnAdjustment_wf (ReturnAdjustment_ctor True 0 0 \<lparr> ReturnAdjustment.NonVirtual := - 8 \<rparr>) \<and>
    ReturnAdjustment_wf (ReturnAdjustment_ctor True 0 0) \<and>
    ReturnAdjustment_wf
      (ReturnAdjustment_ctor True 0 0 \<lparr> ReturnAdjustment.Virtual := [0, 0, 0, 0, 0, 0, 0, 1] \<rparr>) \<and>
    ThisAdjustment_wf (ThisAdjustment_ctor 1 2 \<lparr> ThisAdjustment.NonVirtual := - 8 \<rparr>) \<and>
    ThisAdjustment_wf (ThisAdjustment_ctor 1 2) \<and>
    ThisAdjustment_wf
      (ThisAdjustment_ctor 1 2
         \<lparr> ThisAdjustment.Virtual := [0, 0, 0, 0, 0, 0, 0, 0, 5, 0, 0, 0, 0, 0, 0, 0] \<rparr>) \<and>
    ReturnAdjustment_less (ReturnAdjustment_ctor True 0 0 \<lparr> ReturnAdjustment.NonVirtual := - 8 \<rparr>)
      (ReturnAdjustment_ctor True 0 0) \<and>
    ReturnAdjustment_less (ReturnAdjustment_ctor True 0 0)
      (ReturnAdjustment_ctor True 0 0 \<lparr> ReturnAdjustment.Virtual := [0, 0, 0, 0, 0, 0, 0, 1] \<rparr>) \<and>
    ReturnAdjustment_less (ReturnAdjustment_ctor True 0 0 \<lparr> ReturnAdjustment.NonVirtual := - 8 \<rparr>)
      (ReturnAdjustment_ctor True 0 0 \<lparr> ReturnAdjustment.Virtual := [0, 0, 0, 0, 0, 0, 0, 1] \<rparr>) \<and>
    ThisAdjustment_less (ThisAdjustment_ctor 1 2 \<lparr> ThisAdjustment.NonVirtual := - 8 \<rparr>)
      (ThisAdjustment_ctor 1 2) \<and>
    ThisAdjustment_less (ThisAdjustment_ctor 1 2)
      (ThisAdjustment_ctor 1 2
         \<lparr> ThisAdjustment.Virtual := [0, 0, 0, 0, 0, 0, 0, 0, 5, 0, 0, 0, 0, 0, 0, 0] \<rparr>) \<and>
    ThisAdjustment_less (ThisAdjustment_ctor 1 2 \<lparr> ThisAdjustment.NonVirtual := - 8 \<rparr>)
      (ThisAdjustment_ctor 1 2
         \<lparr> ThisAdjustment.Virtual := [0, 0, 0, 0, 0, 0, 0, 0, 5, 0, 0, 0, 0, 0, 0, 0] \<rparr>)) \<and>
   (ReturnAdjustment_wf (ReturnAdjustment_ctor False 1 0) \<and>
    ReturnAdjustment_wf (ReturnAdjustment_ctor False 2 0) \<and>
    ReturnAdjustment_wf (ReturnAdjustment_ctor False 3 0) \<and>
    ThisAdjustment_wf (ThisAdjustment_ctor 1 0) \<and>
    ThisAdjustment_wf (ThisAdjustment_ctor 2 0) \<and>
    ThisAdjustment_wf (ThisAdjustment_ctor 3 0) \<and>
    \<not> ReturnAdjustment_less (ReturnAdjustment_ctor False 1 0) (ReturnAdjustment_ctor False 2 0) \<and>
    \<not> ReturnAdjustment_less (ReturnAdjustment_ctor False 2 0) (ReturnAdjustment_ctor False 1 0) \<and>
    \<not> ReturnAdjustment_less (ReturnAdjustment_ctor False 2 0) (ReturnAdjustment_ctor False 3 0) \<and>
    \<not> ReturnAdjustment_less (ReturnAdjustment_ctor False 3 0) (ReturnAdjustment_ctor False 2 0) \<and>
    \<not> ReturnAdjustment_less (ReturnAdjustment_ctor False 1 0) (ReturnAdjustment_ctor False 3 0) \<and>
    \<not> ReturnAdjustment_less (ReturnAdjustment_ctor False 3 0) (ReturnAdjustment_ctor False 1 0) \<and>
    \<not> ThisAdjustment_less (ThisAdjustment_ctor 1 0) (ThisAdjustment_ctor 2 0) \<and>
    \<not> ThisAdjustment_less (ThisAdjustment_ctor 2 0) (ThisAdjustment_ctor 1 0) \<and>
    \<not> ThisAdjustment_less (ThisAdjustment_ctor 2 0) (ThisAdjustment_ctor 3 0) \<and>
    \<not> ThisAdjustment_less (ThisAdjustment_ctor 3 0) (ThisAdjustment_ctor 2 0) \<and>
    \<not> ThisAdjustment_less (ThisAdjustment_ctor 1 0) (ThisAdjustment_ctor 3 0) \<and>
    \<not> ThisAdjustment_less (ThisAdjustment_ctor 3 0) (ThisAdjustment_ctor 1 0) \<and>
    ThisAdjustment_eq (ThisAdjustment_ctor 1 0) (ThisAdjustment_ctor 2 0))"
proof -
  let ?x = "ReturnAdjustment_ctor True 0 0 \<lparr> ReturnAdjustment.NonVirtual := - 8 \<rparr>"
  let ?y = "ReturnAdjustment_ctor True 0 0"
  let ?z = "ReturnAdjustment_ctor True 0 0 \<lparr> ReturnAdjustment.Virtual := [0, 0, 0, 0, 0, 0, 0, 1] \<rparr>"
  let ?a = "ThisAdjustment_ctor 1 2 \<lparr> ThisAdjustment.NonVirtual := - 8 \<rparr>"
  let ?b = "ThisAdjustment_ctor 1 2"
  let ?c = "ThisAdjustment_ctor 1 2
         \<lparr> ThisAdjustment.Virtual := [0, 0, 0, 0, 0, 0, 0, 0, 5, 0, 0, 0, 0, 0, 0, 0] \<rparr>"
  have wx: "ReturnAdjustment_wf ?x" and wy: "ReturnAdjustment_wf ?y"
    and wz: "ReturnAdjustment_wf ?z"
    by code_simp+
  have wa: "ThisAdjustment_wf ?a" and wb: "ThisAdjustment_wf ?b" and wc: "ThisAdjustment_wf ?c"
    by code_simp+
  have xy: "ReturnAdjustment_less ?x ?y" and yz: "ReturnAdjustment_less ?y ?z"
    by code_simp+
  have ab: "ThisAdjustment_less ?a ?b" and bc: "ThisAdjustment_less ?b ?c"
    by code_simp+
  note ordered = adjustment_less_strict_weak_order [OF wx wy wz wa wb wc]
  from ordered xy yz have xz: "ReturnAdjustment_less ?x ?z" by blast
  from ordered ab bc have ac: "ThisAdjustment_less ?a ?c" by blast
  have w1: "ReturnAdjustment_wf (ReturnAdjustment_ctor False 1 0)"
    and w2: "ReturnAdjustment_wf (ReturnAdjustment_ctor False 2 0)"
    and w3: "ReturnAdjustment_wf (ReturnAdjustment_ctor False 3 0)"
    by code_simp+
  have v1: "ThisAdjustment_wf (ThisAdjustment_ctor 1 0)"
    and v2: "ThisAdjustment_wf (ThisAdjustment_ctor 2 0)"
    and v3: "ThisAdjustment_wf (ThisAdjustment_ctor 3 0)"
    by code_simp+
  have r12: "\<not> ReturnAdjustment_less (ReturnAdjustment_ctor False 1 0) (ReturnAdjustment_ctor False 2 0)"
    and r21: "\<not> ReturnAdjustment_less (ReturnAdjustment_ctor False 2 0) (ReturnAdjustment_ctor False 1 0)"
    and r23: "\<not> ReturnAdjustment_less (ReturnAdjustment_ctor False 2 0) (ReturnAdjustment_ctor False 3 0)"
    and r32: "\<not> ReturnAdjustment_less (ReturnAdjustment_ctor False 3 0) (ReturnAdjustment_ctor False 2 0)"
    by code_simp+
  have t12: "\<not> ThisAdjustment_less (ThisAdjustment_ctor 1 0) (ThisAdjustment_ctor 2 0)"
    and t21: "\<not> ThisAdjustment_less (ThisAdjustment_ctor 2 0) (ThisAdjustment_ctor 1 0)"
    and t23: "\<not> ThisAdjustment_less (ThisAdjustment_ctor 2 0) (ThisAdjustment_ctor 3 0)"
    and t32: "\<not> ThisAdjustment_less (ThisAdjustment_ctor 3 0) (ThisAdjustment_ctor 2 0)"
    by code_simp+
  note unordered = adjustment_less_strict_weak_order [OF w1 w2 w3 v1 v2 v3]
  from unordered r12 r21 r23 r32
  have r13: "\<not> ReturnAdjustment_less (ReturnAdjustment_ctor False 1 0) (ReturnAdjustment_ctor False 3 0)"
    and r31: "\<not> ReturnAdjustment_less (ReturnAdjustment_ctor False 3 0) (ReturnAdjustment_ctor False 1 0)"
    by blast+
  from unordered t12 t21 t23 t32
  have t13: "\<not> ThisAdjustment_less (ThisAdjustment_ctor 1 0) (ThisAdjustment_ctor 3 0)"
    and t31: "\<not> ThisAdjustment_less (ThisAdjustment_ctor 3 0) (ThisAdjustment_ctor 1 0)"
    by blast+
  from unordered t12 t21
  have te: "ThisAdjustment_eq (ThisAdjustment_ctor 1 0) (ThisAdjustment_ctor 2 0)"
    by blast
  from wx wy wz wa wb wc xy yz xz ab bc ac w1 w2 w3 v1 v2 v3 r12 r21 r23 r32 r13 r31
    t12 t21 t23 t32 t13 t31 te
  show ?thesis by (intro conjI)
qed

text \<open>
  Claim C3 as stated fails on two return adjustments built for a target that is not byte
  addressable, with different target classes: neither is less than the other, and
  \<^verbatim>\<open>operator==\<close> tells them apart.
\<close>

theorem ReturnAdjustment_equivalence_counterexample:
  "ReturnAdjustment_wf (ReturnAdjustment_ctor False 1 0) \<and>
   ReturnAdjustment_wf (ReturnAdjustment_ctor False 2 0) \<and>
   \<not> ReturnAdjustment_less (ReturnAdjustment_ctor False 1 0) (ReturnAdjustment_ctor False 2 0) \<and>
   \<not> ReturnAdjustment_less (ReturnAdjustment_ctor False 2 0) (ReturnAdjustment_ctor False 1 0) \<and>
   \<not> ReturnAdjustment_eq (ReturnAdjustment_ctor False 1 0) (ReturnAdjustment_ctor False 2 0)"
proof -
  have "\<not> ReturnAdjustment_less (ReturnAdjustment_ctor False 1 0) (ReturnAdjustment_ctor False 2 0)"
    and "\<not> ReturnAdjustment_less (ReturnAdjustment_ctor False 2 0) (ReturnAdjustment_ctor False 1 0)"
    by (simp_all add: ReturnAdjustment_less_def ReturnAdjustment_ctor_def
        ReturnVirtualAdjustment_Less_def memcmp_same)
  moreover have
    "\<not> ReturnAdjustment_eq (ReturnAdjustment_ctor False 1 0) (ReturnAdjustment_ctor False 2 0)"
    by (simp add: ReturnAdjustment_eq_def ReturnAdjustment_ctor_def)
  ultimately show ?thesis
    by (simp add: ReturnAdjustment_ctor_wf)
qed

text \<open>
  Claim C4, as the code has it: \<^verbatim>\<open>operator==\<close> of \<^verbatim>\<open>ThisAdjustment\<close> holds exactly
  when the non-virtual offsets are equal and the virtual unions are equal byte by byte;
  it does not read the endpoints, which \<^verbatim>\<open>operator==\<close> of \<^verbatim>\<open>ReturnAdjustment\<close>
  compares in addition. Emptiness and the order read the non-virtual offset and the
  virtual union in the same way in both types.
\<close>

theorem adjustment_contracts:
  assumes "ThisAdjustment_wf x" and "ThisAdjustment_wf y"
    and "ReturnAdjustment_wf r" and "ReturnAdjustment_wf r'"
  shows
    "(ThisAdjustment_eq x y \<longleftrightarrow>
        ThisAdjustment.NonVirtual x = ThisAdjustment.NonVirtual y \<and>
        ThisAdjustment.Virtual x = ThisAdjustment.Virtual y) \<and>
     (ReturnAdjustment_eq r r' \<longleftrightarrow>
        ReturnAdjustment.NonVirtual r = ReturnAdjustment.NonVirtual r' \<and>
        ReturnAdjustment.Virtual r = ReturnAdjustment.Virtual r' \<and>
        ReturnAdjustment.AdjustmentSource r = ReturnAdjustment.AdjustmentSource r' \<and>
        ReturnAdjustment.AdjustmentTarget r = ReturnAdjustment.AdjustmentTarget r') \<and>
     (ThisAdjustment_isEmpty x \<longleftrightarrow>
        ThisAdjustment.NonVirtual x = 0 \<and>
        ThisAdjustment.Virtual x = memset 0 sizeof_ThisVirtualAdjustment) \<and>
     (ReturnAdjustment_isEmpty r \<longleftrightarrow>
        ReturnAdjustment.NonVirtual r = 0 \<and>
        ReturnAdjustment.Virtual r = memset 0 sizeof_ReturnVirtualAdjustment) \<and>
     (ThisAdjustment_less x y \<longleftrightarrow>
        sint (ThisAdjustment.NonVirtual x) < sint (ThisAdjustment.NonVirtual y) \<or>
        ThisAdjustment.NonVirtual x = ThisAdjustment.NonVirtual y \<and>
        memcmp (ThisAdjustment.Virtual x) (ThisAdjustment.Virtual y)
          sizeof_ThisVirtualAdjustment < 0) \<and>
     (ReturnAdjustment_less r r' \<longleftrightarrow>
        sint (ReturnAdjustment.NonVirtual r) < sint (ReturnAdjustment.NonVirtual r') \<or>
        ReturnAdjustment.NonVirtual r = ReturnAdjustment.NonVirtual r' \<and>
        memcmp (ReturnAdjustment.Virtual r) (ReturnAdjustment.Virtual r')
          sizeof_ReturnVirtualAdjustment < 0)"
proof -
  have lx: "length (ThisAdjustment.Virtual x) = sizeof_ThisVirtualAdjustment"
    using assms(1) by (simp add: ThisAdjustment_wf_def)
  have lr: "length (ReturnAdjustment.Virtual r) = sizeof_ReturnVirtualAdjustment"
    using assms(3) by (simp add: ReturnAdjustment_wf_def)
  have e1: "ThisAdjustment_isEmpty x \<longleftrightarrow>
        ThisAdjustment.NonVirtual x = 0 \<and>
        ThisAdjustment.Virtual x = memset 0 sizeof_ThisVirtualAdjustment"
    using lx
    by (simp add: ThisAdjustment_isEmpty_def ThisVirtualAdjustment_isEmpty_def
        ThisVirtualAdjustment_ctor_def ThisVirtualAdjustment_Equals_iff memset_def)
  have e2: "ReturnAdjustment_isEmpty r \<longleftrightarrow>
        ReturnAdjustment.NonVirtual r = 0 \<and>
        ReturnAdjustment.Virtual r = memset 0 sizeof_ReturnVirtualAdjustment"
    using lr
    by (simp add: ReturnAdjustment_isEmpty_def ReturnVirtualAdjustment_isEmpty_def
        ReturnVirtualAdjustment_ctor_def ReturnVirtualAdjustment_Equals_iff memset_def)
  have l1: "ThisAdjustment_less x y \<longleftrightarrow>
        sint (ThisAdjustment.NonVirtual x) < sint (ThisAdjustment.NonVirtual y) \<or>
        ThisAdjustment.NonVirtual x = ThisAdjustment.NonVirtual y \<and>
        memcmp (ThisAdjustment.Virtual x) (ThisAdjustment.Virtual y)
          sizeof_ThisVirtualAdjustment < 0"
    by (simp add: ThisAdjustment_less_def ThisVirtualAdjustment_Less_def)
  have l2: "ReturnAdjustment_less r r' \<longleftrightarrow>
        sint (ReturnAdjustment.NonVirtual r) < sint (ReturnAdjustment.NonVirtual r') \<or>
        ReturnAdjustment.NonVirtual r = ReturnAdjustment.NonVirtual r' \<and>
        memcmp (ReturnAdjustment.Virtual r) (ReturnAdjustment.Virtual r')
          sizeof_ReturnVirtualAdjustment < 0"
    by (simp add: ReturnAdjustment_less_def ReturnVirtualAdjustment_Less_def)
  from ThisAdjustment_eq_iff [OF assms(1,2)] ReturnAdjustment_eq_iff [OF assms(3,4)] e1 e2 l1 l2
  show ?thesis by (intro conjI)
qed

theorem adjustment_contracts_witness:
  "ThisAdjustment_wf (ThisAdjustment_ctor 1 0) \<and>
   ThisAdjustment_wf (ThisAdjustment_ctor 2 0) \<and>
   ReturnAdjustment_wf (ReturnAdjustment_ctor False 1 0) \<and>
   ReturnAdjustment_wf (ReturnAdjustment_ctor False 2 0) \<and>
   ThisAdjustment_eq (ThisAdjustment_ctor 1 0) (ThisAdjustment_ctor 2 0) \<and>
   \<not> ReturnAdjustment_eq (ReturnAdjustment_ctor False 1 0) (ReturnAdjustment_ctor False 2 0)"
proof -
  have w1: "ThisAdjustment_wf (ThisAdjustment_ctor 1 0)"
    and w2: "ThisAdjustment_wf (ThisAdjustment_ctor 2 0)"
    by code_simp+
  have w3: "ReturnAdjustment_wf (ReturnAdjustment_ctor False 1 0)"
    and w4: "ReturnAdjustment_wf (ReturnAdjustment_ctor False 2 0)"
    by code_simp+
  note T = adjustment_contracts [OF w1 w2 w3 w4]
  from T have "ThisAdjustment_eq (ThisAdjustment_ctor 1 0) (ThisAdjustment_ctor 2 0) \<longleftrightarrow>
      ThisAdjustment.NonVirtual (ThisAdjustment_ctor 1 0) =
        ThisAdjustment.NonVirtual (ThisAdjustment_ctor 2 0) \<and>
      ThisAdjustment.Virtual (ThisAdjustment_ctor 1 0) =
        ThisAdjustment.Virtual (ThisAdjustment_ctor 2 0)"
    by blast
  then have 1: "ThisAdjustment_eq (ThisAdjustment_ctor 1 0) (ThisAdjustment_ctor 2 0)"
    by (simp add: ThisAdjustment_ctor_def)
  from T have "ReturnAdjustment_eq (ReturnAdjustment_ctor False 1 0) (ReturnAdjustment_ctor False 2 0)
      \<longrightarrow> ReturnAdjustment.AdjustmentTarget (ReturnAdjustment_ctor False 1 0) =
        ReturnAdjustment.AdjustmentTarget (ReturnAdjustment_ctor False 2 0)"
    by blast
  then have 2: "\<not> ReturnAdjustment_eq (ReturnAdjustment_ctor False 1 0) (ReturnAdjustment_ctor False 2 0)"
    by (auto simp: ReturnAdjustment_ctor_def)
  from w1 w2 w3 w4 1 2 show ?thesis by (intro conjI)
qed

text \<open>
  Claim C4 as stated fails on two this adjustments with different target classes: they
  are equal for \<^verbatim>\<open>operator==\<close>, while the return adjustments with the same endpoints
  are not.
\<close>

theorem ThisAdjustment_eq_endpoints_counterexample:
  "ThisAdjustment_wf (ThisAdjustment_ctor 1 0) \<and>
   ThisAdjustment_wf (ThisAdjustment_ctor 2 0) \<and>
   ThisAdjustment_eq (ThisAdjustment_ctor 1 0) (ThisAdjustment_ctor 2 0) \<and>
   ThisAdjustment.AdjustmentTarget (ThisAdjustment_ctor 1 0) \<noteq>
     ThisAdjustment.AdjustmentTarget (ThisAdjustment_ctor 2 0) \<and>
   \<not> ReturnAdjustment_eq (ReturnAdjustment_ctor False 1 0) (ReturnAdjustment_ctor False 2 0)"
proof -
  have "ThisAdjustment_eq (ThisAdjustment_ctor 1 0) (ThisAdjustment_ctor 2 0)"
    by (simp add: ThisAdjustment_eq_def ThisAdjustment_ctor_def ThisVirtualAdjustment_Equals_def
        memcmp_same)
  moreover have "ThisAdjustment.AdjustmentTarget (ThisAdjustment_ctor 1 0) \<noteq>
     ThisAdjustment.AdjustmentTarget (ThisAdjustment_ctor 2 0)"
    by (simp add: ThisAdjustment_ctor_def)
  moreover have
    "\<not> ReturnAdjustment_eq (ReturnAdjustment_ctor False 1 0) (ReturnAdjustment_ctor False 2 0)"
    by (simp add: ReturnAdjustment_eq_def ReturnAdjustment_ctor_def)
  ultimately show ?thesis
    by (simp add: ThisAdjustment_ctor_wf)
qed

text \<open>
  Claim C5: \<^verbatim>\<open>ReturnAdjustment(byteAddressable, t, s)\<close> stores \<^verbatim>\<open>NULL\<close> for both
  endpoints when \<^verbatim>\<open>byteAddressable\<close> is true, whatever \<open>t\<close> and \<open>s\<close> are, and stores
  \<open>t\<close> as the target and \<open>s\<close> as the source when it is false; the non-virtual offset
  is 0 in both cases.
\<close>

theorem ReturnAdjustment_ctor_fields:
  "ReturnAdjustment.AdjustmentTarget (ReturnAdjustment_ctor True t s) = NULL \<and>
   ReturnAdjustment.AdjustmentSource (ReturnAdjustment_ctor True t s) = NULL \<and>
   ReturnAdjustment.AdjustmentTarget (ReturnAdjustment_ctor False t s) = t \<and>
   ReturnAdjustment.AdjustmentSource (ReturnAdjustment_ctor False t s) = s \<and>
   ReturnAdjustment.NonVirtual (ReturnAdjustment_ctor True t s) = 0 \<and>
   ReturnAdjustment.NonVirtual (ReturnAdjustment_ctor False t s) = 0"
  by (simp add: ReturnAdjustment_ctor_def)

text \<open>
  Claim C10: the flag \<^verbatim>\<open>isMemberPointerThunk\<close> takes part neither in \<^verbatim>\<open>operator==\<close>
  nor in \<^verbatim>\<open>isEmpty()\<close> of \<^verbatim>\<open>ThunkInfo\<close>: changing it changes neither result, two
  thunks that agree on \<^verbatim>\<open>This\<close>, \<^verbatim>\<open>Return\<close> and \<^verbatim>\<open>Method\<close> are equal whatever
  their flags, and a thunk with empty adjustments and no method is empty also when its
  flag is set.
\<close>

theorem isMemberPointerThunk_ignored:
  "(ThunkInfo_eq (l \<lparr> isMemberPointerThunk := f \<rparr>) (r \<lparr> isMemberPointerThunk := g \<rparr>) \<longleftrightarrow>
      ThunkInfo_eq l r) \<and>
   (ThunkInfo_isEmpty (t \<lparr> isMemberPointerThunk := f \<rparr>) \<longleftrightarrow> ThunkInfo_isEmpty t) \<and>
   (This l = This r \<and> Return l = Return r \<and> Method l = Method r \<longrightarrow> ThunkInfo_eq l r) \<and>
   (ThisAdjustment_isEmpty (This t) \<and> ReturnAdjustment_isEmpty (Return t) \<and>
    Method t = nullptr \<and> isMemberPointerThunk t \<longrightarrow> ThunkInfo_isEmpty t)"
  by (simp add: ThunkInfo_eq_def ThunkInfo_isEmpty_def ThisAdjustment_eq_def
      ReturnAdjustment_eq_def ThisVirtualAdjustment_Equals_def
      ReturnVirtualAdjustment_Equals_def memcmp_same)

theorem isMemberPointerThunk_ignored_witness:
  "This ThunkInfo_default = This (ThunkInfo_default \<lparr> isMemberPointerThunk := True \<rparr>) \<and>
   Return ThunkInfo_default = Return (ThunkInfo_default \<lparr> isMemberPointerThunk := True \<rparr>) \<and>
   Method ThunkInfo_default = Method (ThunkInfo_default \<lparr> isMemberPointerThunk := True \<rparr>) \<and>
   isMemberPointerThunk ThunkInfo_default \<noteq>
     isMemberPointerThunk (ThunkInfo_default \<lparr> isMemberPointerThunk := True \<rparr>) \<and>
   ThunkInfo_eq ThunkInfo_default (ThunkInfo_default \<lparr> isMemberPointerThunk := True \<rparr>) \<and>
   ThisAdjustment_isEmpty (This (ThunkInfo_default \<lparr> isMemberPointerThunk := True \<rparr>)) \<and>
   ReturnAdjustment_isEmpty (Return (ThunkInfo_default \<lparr> isMemberPointerThunk := True \<rparr>)) \<and>
   Method (ThunkInfo_default \<lparr> isMemberPointerThunk := True \<rparr>) = nullptr \<and>
   isMemberPointerThunk (ThunkInfo_default \<lparr> isMemberPointerThunk := True \<rparr>) \<and>
   ThunkInfo_isEmpty (ThunkInfo_default \<lparr> isMemberPointerThunk := True \<rparr>)"
proof -
  let ?t = "ThunkInfo_default \<lparr> isMemberPointerThunk := True \<rparr>"
  have same: "This ThunkInfo_default = This ?t" "Return ThunkInfo_default = Return ?t"
    "Method ThunkInfo_default = Method ?t"
    by simp_all
  have flags: "isMemberPointerThunk ThunkInfo_default \<noteq> isMemberPointerThunk ?t"
    by (simp add: ThunkInfo_default_def)
  have empty: "ThisAdjustment_isEmpty (This ?t)" "ReturnAdjustment_isEmpty (Return ?t)"
    "Method ?t = nullptr" "isMemberPointerThunk ?t"
    by code_simp+
  note T = isMemberPointerThunk_ignored [where l = ThunkInfo_default and r = ?t and t = ?t]
  from T same have 1: "ThunkInfo_eq ThunkInfo_default ?t" by blast
  from T empty have 2: "ThunkInfo_isEmpty ?t" by blast
  from same flags 1 empty 2 show ?thesis by (intro conjI)
qed

section \<open>Properties of the adjustment calculator\<close>

lemma walk_path_no_virtual:
  "\<forall>s\<in>set path. \<not> virtual_crossing s \<Longrightarrow>
   walk_path path acc = (acc + sum_list (map fixed_offset path), False)"
  by (induction path arbitrary: acc) (simp_all add: add.assoc)

lemma filter_virtual_Nil:
  "\<forall>s\<in>set path. \<not> virtual_crossing s \<Longrightarrow> filter virtual_crossing path = []"
  by (induction path) simp_all

text \<open>
  Claim C9: for a path that crosses no virtual base, \<^verbatim>\<open>compute_this_adjustment\<close> and
  \<^verbatim>\<open>compute_return_adjustment\<close> return an adjustment whose virtual component is empty
  and whose non-virtual offset is the sum of the fixed offsets of the steps; for a class
  \<open>B\<close> that derives non-virtually from \<open>A\<close> at offset 0 the this adjustment has
  non-virtual offset 0 and an empty virtual component, and no thunk is needed.
\<close>

theorem adjustment_without_virtual_crossing:
  assumes "\<forall>s\<in>set path. \<not> virtual_crossing s"
  shows
    "(\<exists>a. compute_this_adjustment path abi = Inr a \<and>
          ThisVirtualAdjustment_isEmpty (ThisAdjustment.Virtual a) \<and>
          ThisAdjustment.NonVirtual a = sum_list (map fixed_offset path)) \<and>
     (\<exists>r. compute_return_adjustment path abi = Inr r \<and>
          ReturnVirtualAdjustment_isEmpty (ReturnAdjustment.Virtual r) \<and>
          ReturnAdjustment.NonVirtual r = sum_list (map fixed_offset path)) \<and>
     (\<exists>a. compute_this_adjustment
            [\<lparr> from_class = B, to_class = A, virtual_crossing = False, fixed_offset = 0 \<rparr>] abi
            = Inr a \<and>
          ThisAdjustment.NonVirtual a = 0 \<and>
          ThisVirtualAdjustment_isEmpty (ThisAdjustment.Virtual a) \<and>
          ThisAdjustment_isEmpty a \<and>
          \<not> needs_thunk (ThunkInfo_ctor a (ReturnAdjustment_ctor (byteAddressable abi) A B) nullptr))"
proof (intro conjI)
  note w = walk_path_no_virtual [OF assms, of 0]
  note f = filter_virtual_Nil [OF assms]
  show "\<exists>a. compute_this_adjustment path abi = Inr a \<and>
          ThisVirtualAdjustment_isEmpty (ThisAdjustment.Virtual a) \<and>
          ThisAdjustment.NonVirtual a = sum_list (map fixed_offset path)"
    by (simp add: compute_this_adjustment_def w f ThisAdjustment_ctor_def
        ThisVirtualAdjustment_ctor_isEmpty)
  show "\<exists>r. compute_return_adjustment path abi = Inr r \<and>
          ReturnVirtualAdjustment_isEmpty (ReturnAdjustment.Virtual r) \<and>
          ReturnAdjustment.NonVirtual r = sum_list (map fixed_offset path)"
    by (simp add: compute_return_adjustment_def w f ReturnAdjustment_ctor_def
        ReturnVirtualAdjustment_ctor_isEmpty)
  show "\<exists>a. compute_this_adjustment
            [\<lparr> from_class = B, to_class = A, virtual_crossing = False, fixed_offset = 0 \<rparr>] abi
            = Inr a \<and>
          ThisAdjustment.NonVirtual a = 0 \<and>
          ThisVirtualAdjustment_isEmpty (ThisAdjustment.Virtual a) \<and>
          ThisAdjustment_isEmpty a \<and>
          \<not> needs_thunk (ThunkInfo_ctor a (ReturnAdjustment_ctor (byteAddressable abi) A B) nullptr)"
    by (simp add: compute_this_adjustment_def ThisAdjustment_ctor_def needs_thunk_def
        ThunkInfo_ctor_def ThunkInfo_isEmpty_def ThisAdjustment_isEmpty_def
        ReturnAdjustment_isEmpty_def ReturnAdjustment_ctor_def
        ThisVirtualAdjustment_ctor_isEmpty ReturnVirtualAdjustment_ctor_isEmpty)
qed

theorem adjustment_without_virtual_crossing_witness:
  "list_all (\<lambda>s. \<not> virtual_crossing s)
     [\<lparr> from_class = 3, to_class = 2, virtual_crossing = False, fixed_offset = 8 \<rparr>,
      \<lparr> from_class = 2, to_class = 1, virtual_crossing = False, fixed_offset = 16 \<rparr>] \<and>
   (\<exists>a. compute_this_adjustment
          [\<lparr> from_class = 3, to_class = 2, virtual_crossing = False, fixed_offset = 8 \<rparr>,
           \<lparr> from_class = 2, to_class = 1, virtual_crossing = False, fixed_offset = 16 \<rparr>]
          \<lparr> encode_virtual_return = (\<lambda>p. [8, 0, 0, 0, 0, 0, 0, 0]),
            encode_virtual_this = (\<lambda>p. [8, 0, 0, 0, 0, 0, 0, 0, 1, 0, 0, 0, 0, 0, 0, 0]),
            byteAddressable = True \<rparr> = Inr a \<and>
        ThisVirtualAdjustment_isEmpty (ThisAdjustment.Virtual a) \<and>
        ThisAdjustment.NonVirtual a = 24) \<and>
   (\<exists>r. compute_return_adjustment
          [\<lparr> from_class = 3, to_class = 2, virtual_crossing = False, fixed_offset = 8 \<rparr>,
           \<lparr> from_class = 2, to_class = 1, virtual_crossing = False, fixed_offset = 16 \<rparr>]
          \<lparr> encode_virtual_return = (\<lambda>p. [8, 0, 0, 0, 0, 0, 0, 0]),
            encode_virtual_this = (\<lambda>p. [8, 0, 0, 0, 0, 0, 0, 0, 1, 0, 0, 0, 0, 0, 0, 0]),
            byteAddressable = True \<rparr> = Inr r \<and>
        ReturnVirtualAdjustment_isEmpty (ReturnAdjustment.Virtual r) \<and>
        ReturnAdjustment.NonVirtual r = 24)"
proof -
  let ?path = "[\<lparr> from_class = 3, to_class = 2, virtual_crossing = False, fixed_offset = 8 \<rparr>,
           \<lparr> from_class = 2, to_class = 1, virtual_crossing = False, fixed_offset = 16 \<rparr>]"
  let ?abi = "\<lparr> encode_virtual_return = (\<lambda>p. [8, 0, 0, 0, 0, 0, 0, 0]),
            encode_virtual_this = (\<lambda>p. [8, 0, 0, 0, 0, 0, 0, 0, 1, 0, 0, 0, 0, 0, 0, 0]),
            byteAddressable = True \<rparr>"
  have h: "\<forall>s\<in>set ?path. \<not> virtual_crossing s" by simp
  have s: "sum_list (map fixed_offset ?path) = 24" by simp
  from adjustment_without_virtual_crossing [OF h, of ?abi] s
  have "\<exists>a. compute_this_adjustment ?path ?abi = Inr a \<and>
        ThisVirtualAdjustment_isEmpty (ThisAdjustment.Virtual a) \<and>
        ThisAdjustment.NonVirtual a = 24"
    and "\<exists>r. compute_return_adjustment ?path ?abi = Inr r \<and>
        ReturnVirtualAdjustment_isEmpty (ReturnAdjustment.Virtual r) \<and>
        ReturnAdjustment.NonVirtual r = 24"
    by simp_all
  moreover have "list_all (\<lambda>s. \<not> virtual_crossing s) ?path" by simp
  ultimately show ?thesis by (intro conjI)
qed

section \<open>Properties of the multiversion resolver\<close>

text \<open>
  Claim C6: for the candidates \<^verbatim>\<open>arch=ivybridge\<close>, \<^verbatim>\<open>arch=sandybridge\<close>,
  \<^verbatim>\<open>sse4.2\<close> and \<^verbatim>\<open>default\<close> of \<^verbatim>\<open>S::foo(int)\<close>, the built resolver run where
  \<^verbatim>\<open>sse4.2\<close> and \<^verbatim>\<open>ivybridge\<close> are detected selects the \<^verbatim>\<open>arch=ivybridge\<close>
  version, and neither the \<^verbatim>\<open>sse4.2\<close> version nor the default; the same holds in the
  order in which the test expects the resolver to return them.
\<close>

theorem resolver_selects_most_specific:
  "(\<exists>d. build_resolver
           [(Arch ''ivybridge'', ''_ZN1S3fooEi.arch_ivybridge''),
            (Arch ''sandybridge'', ''_ZN1S3fooEi.arch_sandybridge''),
            (Feature ''sse4.2'', ''_ZN1S3fooEi.sse4.2''),
            (Default, ''_ZN1S3fooEi'')] = Inr d \<and>
        run_resolver d {''sse4.2'', ''ivybridge''} = ''_ZN1S3fooEi.arch_ivybridge'' \<and>
        run_resolver d {''sse4.2'', ''ivybridge''} \<noteq> ''_ZN1S3fooEi.sse4.2'' \<and>
        run_resolver d {''sse4.2'', ''ivybridge''} \<noteq> ''_ZN1S3fooEi'') \<and>
   (\<exists>d. build_resolver
           [(Arch ''sandybridge'', ''_ZN1S3fooEi.arch_sandybridge''),
            (Arch ''ivybridge'', ''_ZN1S3fooEi.arch_ivybridge''),
            (Feature ''sse4.2'', ''_ZN1S3fooEi.sse4.2''),
            (Default, ''_ZN1S3fooEi'')] = Inr d \<and>
        run_resolver d {''sse4.2'', ''ivybridge''} = ''_ZN1S3fooEi.arch_ivybridge'')"
  by (simp add: build_resolver_def run_resolver_def)

text \<open>
  Claim C7: for a candidate list without a candidate with the \<^verbatim>\<open>default\<close> predicate,
  \<^verbatim>\<open>build_resolver\<close> fails with the malformed-table error and returns no resolver; a
  resolver that it returns has its fallback among the candidates and every other
  candidate among its checks.
\<close>

theorem build_resolver_needs_fallback:
  "((\<forall>c\<in>set candidates. fst c \<noteq> Default) \<longrightarrow>
      build_resolver candidates = Inl MalformedTable) \<and>
   (build_resolver candidates = Inr d \<longrightarrow>
      (Default, fallback d) \<in> set candidates \<and>
      checks d = filter (\<lambda>c. fst c \<noteq> Default) candidates)"
proof (intro conjI impI)
  assume "\<forall>c\<in>set candidates. fst c \<noteq> Default"
  then have "filter (\<lambda>c. fst c = Default) candidates = []"
    by (induction candidates) simp_all
  then show "build_resolver candidates = Inl MalformedTable"
    by (simp add: build_resolver_def)
next
  assume b: "build_resolver candidates = Inr d"
  then obtain fb where fb: "filter (\<lambda>c. fst c = Default) candidates = [fb]"
    and d: "d = \<lparr> checks = filter (\<lambda>c. fst c \<noteq> Default) candidates, fallback = snd fb \<rparr>"
    by (auto simp: build_resolver_def split: list.splits if_splits)
  from fb have "fb \<in> set (filter (\<lambda>c. fst c = Default) candidates)" by simp
  then have "fb \<in> set candidates" "fst fb = Default" by simp_all
  then have "(Default, snd fb) \<in> set candidates" by (metis prod.collapse)
  with d show "(Default, fallback d) \<in> set candidates" by simp
  from d show "checks d = filter (\<lambda>c. fst c \<noteq> Default) candidates" by simp
qed

theorem build_resolver_needs_fallback_witness:
  "list_all (\<lambda>c. fst c \<noteq> Default)
     [(Arch ''ivybridge'', ''A''), (Arch ''sandybridge'', ''B''), (Feature ''sse4.2'', ''C'')] \<and>
   build_resolver [(Arch ''ivybridge'', ''A''), (Arch ''sandybridge'', ''B''), (Feature ''sse4.2'', ''C'')]
     = Inl MalformedTable \<and>
   build_resolver [(Arch ''ivybridge'', ''A''), (Default, ''D'')]
     = Inr \<lparr> checks = [(Arch ''ivybridge'', ''A'')], fallback = ''D'' \<rparr> \<and>
   (Default, fallback \<lparr> checks = [(Arch ''ivybridge'', ''A'')], fallback = ''D'' \<rparr>)
     \<in> set [(Arch ''ivybridge'', ''A''), (Default, ''D'')]"
proof -
  let ?cs = "[(Arch ''ivybridge'', ''A''), (Arch ''sandybridge'', ''B''), (Feature ''sse4.2'', ''C'')]"
  let ?d = "\<lparr> checks = [(Arch ''ivybridge'', ''A'')], fallback = ''D'' \<rparr>"
  have h: "\<forall>c\<in>set ?cs. fst c \<noteq> Default" by simp
  with build_resolver_needs_fallback [of ?cs]
  have 1: "build_resolver ?cs = Inl MalformedTable" by blast
  have b: "build_resolver [(Arch ''ivybridge'', ''A''), (Default, ''D'')] = Inr ?d"
    by (simp add: build_resolver_def)
  with build_resolver_needs_fallback [of "[(Arch ''ivybridge'', ''A''), (Default, ''D'')]" ?d]
  have 2: "(Default, fallback ?d) \<in> set [(Arch ''ivybridge'', ''A''), (Default, ''D'')]"
    by blast
  have l: "list_all (\<lambda>c. fst c \<noteq> Default) ?cs" by simp
  from l 1 b 2 show ?thesis by (intro conjI)
qed

end
